theory Spec2Isabelle
  imports Complex_Main "HOL-Library.Product_Lexorder"
begin

section \<open>Synchronisation on a Zadoff-Chu pilot (qosst\_bob/dsp/zc.py)\<close>

text \<open>
  The module has one function, \<^verbatim>\<open>synchronisation_zc\<close>. It is a straight-line
  composition of two collaborators (\<^verbatim>\<open>zcsequence\<close> of qosst\_core and
  \<^verbatim>\<open>upsample\<close> of the sibling module \<^verbatim>\<open>resample\<close>) and of numpy/scipy
  primitives. The collaborators are parameters of the model. The primitives are modelled
  by what they compute, over exact real and complex numbers: samples are \<^typ>\<open>complex\<close>
  (a real-valued capture is a list of complex numbers with imaginary part zero),
  magnitudes and the envelope are \<^typ>\<open>real\<close>, positions are \<^typ>\<open>int\<close>.
  The product of line 76, whose truncation is the window length, is rounded as a double;
  the sums of the envelope and of the correlation are exact.
\<close>

subsection \<open>Exceptions\<close>

text \<open>
  \<^verbatim>\<open>RuntimeError\<close>, \<^verbatim>\<open>ValueError\<close> and \<^verbatim>\<open>IndexError\<close> are the exceptions the
  primitives raise. \<^verbatim>\<open>InvalidParameterError\<close> is the class named by the function's
  contract; no statement of the module raises it.
\<close>

datatype py_exception = RuntimeError | ValueError | IndexError | InvalidParameterError

subsection \<open>Python and numpy primitives\<close>

text \<open>\<^verbatim>\<open>int(x)\<close> on a float: truncation toward zero.\<close>

definition py_int :: "real \<Rightarrow> int" where
  "py_int x = (if x < 0 then \<lceil>x\<rceil> else \<lfloor>x\<rfloor>)"

text \<open>
  A Python float is an IEEE 754 double. \<open>double_round x\<close> is the double nearest to the
  real \<open>x\<close>, ties going to the even significand of 53 bits: with \<open>e\<close> the binary exponent
  of \<open>x\<close>, the doubles around \<open>x\<close> are the multiples of \<open>2 ^ (e - 52)\<close>. The doubles of
  magnitude below \<open>2 ^ -1022\<close> are spaced more coarsely and those beyond \<open>2 ^ 1024\<close> do not
  exist (the operation gives infinity, and \<^verbatim>\<open>int\<close> of it raises); \<open>in_double_range\<close>
  below keeps the operands away from the second case, and in the first the truncation is
  zero under either spacing.
\<close>

definition round_half_even :: "real \<Rightarrow> int" where
  "round_half_even x =
     (let f = \<lfloor>x\<rfloor>; r = x - real_of_int f
      in if r < 1 / 2 then f else if 1 / 2 < r then f + 1 else if even f then f else f + 1)"

definition double_exponent :: "real \<Rightarrow> int" where
  "double_exponent x = \<lfloor>log 2 \<bar>x\<bar>\<rfloor>"

definition double_round :: "real \<Rightarrow> real" where
  "double_round x =
     (if x = 0 then 0
      else real_of_int (round_half_even (x / 2 powr real_of_int (double_exponent x - 52)))
             * 2 powr real_of_int (double_exponent x - 52))"

text \<open>
  \<^verbatim>\<open>i * x\<close> with an \<^verbatim>\<open>int\<close> \<open>i\<close> and a \<^verbatim>\<open>float\<close> \<open>x\<close>: \<open>i\<close> is converted to a double,
  and the product of the two doubles is rounded to a double.
\<close>

definition float_mul :: "int \<Rightarrow> real \<Rightarrow> real" where
  "float_mul i x = double_round (double_round (real_of_int i) * x)"

definition in_double_range :: "int \<Rightarrow> real \<Rightarrow> bool" where
  "in_double_range i x \<longleftrightarrow> \<bar>real_of_int i\<bar> < 2 ^ 1023 \<and> \<bar>real_of_int i * x\<bar> < 2 ^ 1023"

text \<open>
  \<^verbatim>\<open>xs[i:j]\<close>: a negative bound counts from the end, and both bounds are clamped to
  the sequence. Slicing never raises.
\<close>

definition py_slice :: "'a list \<Rightarrow> int \<Rightarrow> int \<Rightarrow> 'a list" where
  "py_slice xs i j =
     (let n = int (length xs);
          i' = (if i < 0 then max (i + n) 0 else min i n);
          j' = (if j < 0 then max (j + n) 0 else min j n)
      in take (nat (j' - i')) (drop (nat i') xs))"

text \<open>\<^verbatim>\<open>a[k]\<close> on an array with a non-negative index \<open>k\<close>.\<close>

definition py_index :: "'a list \<Rightarrow> nat \<Rightarrow> py_exception + 'a" where
  "py_index xs k = (if k < length xs then Inr (xs ! k) else Inl IndexError)"

text \<open>
  \<^verbatim>\<open>np.argmax\<close>: one pass that keeps the running maximum and replaces it only by a
  strictly larger element, so the first occurrence of the maximum is returned; an empty
  array raises \<^verbatim>\<open>ValueError\<close>.
\<close>

fun argmax_from :: "'a::linorder list \<Rightarrow> nat \<Rightarrow> 'a \<Rightarrow> nat \<Rightarrow> nat" where
  "argmax_from [] i mp mi = mi"
| "argmax_from (x # xs) i mp mi =
     (if mp < x then argmax_from xs (Suc i) x i else argmax_from xs (Suc i) mp mi)"

definition np_argmax :: "'a::linorder list \<Rightarrow> py_exception + nat" where
  "np_argmax xs = (case xs of [] \<Rightarrow> Inl ValueError | x # rest \<Rightarrow> Inr (argmax_from rest 1 x 0))"

text \<open>
  numpy orders complex numbers by real part, then by imaginary part; \<^verbatim>\<open>np.argmax\<close> on a
  complex array compares these keys.
\<close>

definition complex_key :: "complex \<Rightarrow> real \<times> real" where
  "complex_key z = (Re z, Im z)"

subsection \<open>scipy primitives\<close>

text \<open>
  Boundary mode \<^verbatim>\<open>reflect\<close> of scipy.ndimage (\<^verbatim>\<open>d c b a | a b c d | d c b a\<close>): the
  position in a line of length \<open>n\<close> that the extended position \<open>i\<close> reads.
\<close>

definition reflect_index :: "nat \<Rightarrow> int \<Rightarrow> nat" where
  "reflect_index n i =
     (let m = i mod (2 * int n) in if m < int n then nat m else nat (2 * int n - 1 - m))"

text \<open>
  \<^verbatim>\<open>uniform_filter1d(input, size)\<close> with the defaults \<^verbatim>\<open>mode="reflect"\<close>,
  \<^verbatim>\<open>origin=0\<close>: output \<open>i\<close> is the mean of the \<open>size\<close> extended samples at positions
  \<open>i - size div 2, \<dots>, i - size div 2 + size - 1\<close>. A size below one raises
  \<^verbatim>\<open>RuntimeError\<close> (incorrect filter size).
\<close>

definition window_sum :: "real list \<Rightarrow> int \<Rightarrow> nat \<Rightarrow> real" where
  "window_sum xs lo filter_size =
     sum_list (map (\<lambda>j. xs ! reflect_index (length xs) (lo + int j)) [0..<filter_size])"

definition uniform_filter1d :: "real list \<Rightarrow> int \<Rightarrow> py_exception + real list" where
  "uniform_filter1d xs filter_size =
     (if filter_size < 1 then Inl RuntimeError
      else Inr (map (\<lambda>i. window_sum xs (int i - filter_size div 2) (nat filter_size)
                          / real_of_int filter_size)
                    [0..<length xs]))"

text \<open>
  \<^verbatim>\<open>signal.correlation_lags(in1_len, in2_len, mode="same")\<close>: the lags of the full
  correlation, from which a slice around the midpoint is taken.
\<close>

definition correlation_lags :: "nat \<Rightarrow> nat \<Rightarrow> int list" where
  "correlation_lags in1_len in2_len =
     (let lags = [- int in2_len + 1 .. int in1_len - 1];
          mid = int (length lags) div 2;
          lag_bound = int in1_len div 2
      in if in1_len mod 2 = 0 then py_slice lags (mid - lag_bound) (mid + lag_bound)
         else py_slice lags (mid - lag_bound) (mid + lag_bound + 1))"

text \<open>
  The correlation of \<open>a\<close> with \<open>v\<close> at lag \<open>k\<close>: the sum over \<open>t\<close> of
  \<open>a[t + k] * conj(v[t])\<close>, where positions outside \<open>a\<close> contribute nothing. The
  conjugation is a parameter: the identity on reals, \<^const>\<open>cnj\<close> on complex numbers.
\<close>

fun corr_lag :: "('a \<Rightarrow> 'a) \<Rightarrow> 'a::comm_ring_1 list \<Rightarrow> 'a list \<Rightarrow> int \<Rightarrow> 'a" where
  "corr_lag cj a [] k = 0"
| "corr_lag cj a (y # v) k =
     (if 0 \<le> k \<and> k < int (length a) then a ! nat k * cj y else 0) + corr_lag cj a v (k + 1)"

text \<open>
  \<^verbatim>\<open>signal.correlate(in1, in2, mode="same")\<close>: the output has the length of \<open>in1\<close>
  and is the centred part of the full correlation, so that output \<open>i\<close> is the
  correlation at lag \<open>i - len(in2) div 2\<close>. With an empty input no correlation is computed
  and the call, or the \<^verbatim>\<open>np.argmax\<close> that consumes its empty result, raises
  \<^verbatim>\<open>ValueError\<close>.
\<close>

definition correlate_same ::
  "('a \<Rightarrow> 'a) \<Rightarrow> 'a::comm_ring_1 list \<Rightarrow> 'a list \<Rightarrow> py_exception + 'a list" where
  "correlate_same cj in1 in2 =
     (if in1 = [] \<or> in2 = [] then Inl ValueError
      else Inr (map (\<lambda>i. corr_lag cj in1 in2 (int i - int (length in2 div 2)))
                    [0..<length in1]))"

subsection \<open>The function\<close>

text \<open>
  Line 76: \<^verbatim>\<open>uniform_filter_length = int(zc_length * resample)\<close>, where \<open>resample\<close> is
  a float: the product is the double product, and \<^verbatim>\<open>int\<close> truncates it.
\<close>

definition uniform_filter_length :: "int \<Rightarrow> real \<Rightarrow> int" where
  "uniform_filter_length zc_length resample = py_int (float_mul zc_length resample)"

text \<open>Line 77: \<^verbatim>\<open>envelope = uniform_filter1d(np.abs(data), uniform_filter_length)\<close>.\<close>

definition envelope :: "complex list \<Rightarrow> int \<Rightarrow> real \<Rightarrow> py_exception + real list" where
  "envelope data zc_length resample =
     uniform_filter1d (map cmod data) (uniform_filter_length zc_length resample)"

text \<open>Line 78: \<^verbatim>\<open>approx_zc = int(np.argmax(envelope) - uniform_filter_length / 2)\<close>.\<close>

definition approx_zc :: "complex list \<Rightarrow> int \<Rightarrow> real \<Rightarrow> py_exception + int" where
  "approx_zc data zc_length resample =
     (case envelope data zc_length resample of
        Inl e \<Rightarrow> Inl e
      | Inr env \<Rightarrow>
          (case np_argmax env of
             Inl e \<Rightarrow> Inl e
           | Inr k \<Rightarrow>
               Inr (py_int (real k - real_of_int (uniform_filter_length zc_length resample) / 2))))"

text \<open>Lines 91 to 93: the bounds of the search window and the window itself.\<close>

definition xcorr_start_point :: "int \<Rightarrow> nat \<Rightarrow> int" where
  "xcorr_start_point approx n = max (approx - 2 * int n) 0"

definition xcorr_end_point :: "int \<Rightarrow> nat \<Rightarrow> nat \<Rightarrow> int" where
  "xcorr_end_point approx n len_data = min (approx + 2 * int n) (int len_data)"

definition data_zc :: "complex list \<Rightarrow> int \<Rightarrow> nat \<Rightarrow> complex list" where
  "data_zc data approx n =
     py_slice data (xcorr_start_point approx n) (xcorr_end_point approx n (length data))"

text \<open>
  Lines 95 to 98 and the \<^verbatim>\<open>np.argmax(xcorr)\<close> of line 100: the position of the
  maximum of the correlation, of magnitudes or of the raw samples.
\<close>

definition xcorr_abs :: "complex list \<Rightarrow> complex list \<Rightarrow> py_exception + real list" where
  "xcorr_abs dzc zadoff_chu = correlate_same (\<lambda>x. x) (map cmod dzc) (map cmod zadoff_chu)"

definition xcorr_raw :: "complex list \<Rightarrow> complex list \<Rightarrow> py_exception + complex list" where
  "xcorr_raw dzc zadoff_chu = correlate_same cnj dzc zadoff_chu"

definition argmax_xcorr :: "complex list \<Rightarrow> complex list \<Rightarrow> bool \<Rightarrow> py_exception + nat" where
  "argmax_xcorr dzc zadoff_chu use_abs =
     (if use_abs then
        (case xcorr_abs dzc zadoff_chu of Inl e \<Rightarrow> Inl e | Inr xcorr \<Rightarrow> np_argmax xcorr)
      else
        (case xcorr_raw dzc zadoff_chu of
           Inl e \<Rightarrow> Inl e
         | Inr xcorr \<Rightarrow> np_argmax (map complex_key xcorr)))"

text \<open>Lines 84 to 104, given the coarse estimate and the resampled pilot.\<close>

definition windowed_correlator ::
  "complex list \<Rightarrow> complex list \<Rightarrow> int \<Rightarrow> bool \<Rightarrow> py_exception + (int \<times> int)" where
  "windowed_correlator data zadoff_chu approx use_abs =
     (let n = length zadoff_chu;
          dzc = data_zc data approx n;
          lags = correlation_lags (length dzc) (length zadoff_chu)
      in case argmax_xcorr dzc zadoff_chu use_abs of
           Inl e \<Rightarrow> Inl e
         | Inr k \<Rightarrow>
             (case py_index lags k of
                Inl e \<Rightarrow> Inl e
              | Inr best_lag \<Rightarrow>
                  (let beginning_zc = best_lag + xcorr_start_point approx n;
                       end_zc = int (length zadoff_chu) + beginning_zc
                   in Inr (beginning_zc, end_zc))))"

text \<open>
  The whole function. \<open>zcsequence\<close> and \<open>upsample\<close> are the two collaborators;
  \<open>upsample\<close> is called with the order \<open>0\<close> (zero-order hold). The parameter
  \<open>ratio_approx\<close> is accepted and not read.
\<close>

definition synchronisation_zc ::
  "(int \<Rightarrow> int \<Rightarrow> complex list) \<Rightarrow> (complex list \<Rightarrow> real \<Rightarrow> nat \<Rightarrow> complex list) \<Rightarrow>
   complex list \<Rightarrow> int \<Rightarrow> int \<Rightarrow> real \<Rightarrow> bool \<Rightarrow> int \<Rightarrow> py_exception + (int \<times> int)" where
  "synchronisation_zc zcsequence upsample data zc_root zc_length resample use_abs ratio_approx =
     (case approx_zc data zc_length resample of
        Inl e \<Rightarrow> Inl e
      | Inr approx \<Rightarrow>
          windowed_correlator data (upsample (zcsequence zc_root zc_length) resample 0)
            approx use_abs)"

text \<open>
  Modelled from the spec: the provider \<^verbatim>\<open>zcsequence\<close> belongs to qosst\_core and is
  outside this module. The pilot is ``an ordered sequence of \<open>zc_length\<close> complex
  unit-magnitude values, deterministically generated from \<open>(zc_root, zc_length)\<close>''.
  \<open>given_sequence p\<close> is a provider whose value is \<open>p\<close>; the examples below give it the
  Zadoff-Chu values \<open>exp(-\<i>\<pi> u k (k + N mod 2) / N)\<close> of the root \<open>u\<close> and length \<open>N\<close>
  they call it with, which are \<open>1, -\<i>\<close> for root 1 and length 2.
\<close>

definition given_sequence :: "complex list \<Rightarrow> int \<Rightarrow> int \<Rightarrow> complex list" where
  "given_sequence p zc_root zc_length = p"

text \<open>
  Modelled from the spec: the resampler \<^verbatim>\<open>upsample\<close> of the sibling module
  \<^verbatim>\<open>resample\<close> is outside this module. ``A resample factor of 1 means no
  resampling'': \<open>unit_resampler\<close> is the resampler at that factor, where the zero-order
  hold repeats every sample once. It is used with \<open>resample = 1\<close> only.
\<close>

definition unit_resampler :: "complex list \<Rightarrow> real \<Rightarrow> nat \<Rightarrow> complex list" where
  "unit_resampler xs factor hold_order = xs"

text \<open>
  The first entry of \<^const>\<open>correlation_lags\<close> in closed form; the entries that follow
  increase by one.
\<close>

definition first_lag :: "nat \<Rightarrow> nat \<Rightarrow> int" where
  "first_lag in1_len in2_len =
     - int in2_len + 1 + (int in1_len + int in2_len - 1) div 2 - int in1_len div 2"

section \<open>Properties of the primitives\<close>

subsection \<open>The first maximum\<close>

lemma argmax_from_inv:
  assumes "length pre = i" and "mi < i" and "pre ! mi = mp"
    and "\<forall>j<i. pre ! j \<le> mp" and "\<forall>j<mi. pre ! j < mp"
  shows "argmax_from xs i mp mi < length (pre @ xs) \<and>
         (\<forall>j<length (pre @ xs). (pre @ xs) ! j \<le> (pre @ xs) ! argmax_from xs i mp mi) \<and>
         (\<forall>j<argmax_from xs i mp mi. (pre @ xs) ! j < (pre @ xs) ! argmax_from xs i mp mi)"
  using assms
proof (induction xs arbitrary: pre i mp mi)
  case Nil
  then show ?case by simp
next
  case (Cons x xs)
  show ?case
  proof (cases "mp < x")
    case True
    have len: "length (pre @ [x]) = Suc i" using Cons.prems(1) by simp
    have at: "(pre @ [x]) ! i = x" using Cons.prems(1) by (simp add: nth_append)
    have le: "\<forall>j<Suc i. (pre @ [x]) ! j \<le> x"
      using Cons.prems(1,4) True by (auto simp: nth_append less_Suc_eq)
    have lt: "\<forall>j<i. (pre @ [x]) ! j < x"
      using Cons.prems(1,4) True by (auto simp: nth_append)
    from Cons.IH [OF len _ at le lt] True show ?thesis by simp
  next
    case False
    have len: "length (pre @ [x]) = Suc i" using Cons.prems(1) by simp
    have mi: "mi < Suc i" using Cons.prems(2) by simp
    have at: "(pre @ [x]) ! mi = mp" using Cons.prems(1,2,3) by (simp add: nth_append)
    have le: "\<forall>j<Suc i. (pre @ [x]) ! j \<le> mp"
      using Cons.prems(1,4) False by (auto simp: nth_append less_Suc_eq)
    have lt: "\<forall>j<mi. (pre @ [x]) ! j < mp"
      using Cons.prems(1,2,5) by (auto simp: nth_append)
    from Cons.IH [OF len mi at le lt] False show ?thesis by simp
  qed
qed

lemma np_argmax_Inr:
  assumes "np_argmax xs = Inr k"
  shows "k < length xs" and "\<forall>j<length xs. xs ! j \<le> xs ! k" and "\<forall>j<k. xs ! j < xs ! k"
proof -
  from assms obtain x rest where xs: "xs = x # rest" and k: "k = argmax_from rest 1 x 0"
    by (auto simp: np_argmax_def split: list.splits)
  have "argmax_from rest 1 x 0 < length ([x] @ rest) \<and>
        (\<forall>j<length ([x] @ rest). ([x] @ rest) ! j \<le> ([x] @ rest) ! argmax_from rest 1 x 0) \<and>
        (\<forall>j<argmax_from rest 1 x 0. ([x] @ rest) ! j < ([x] @ rest) ! argmax_from rest 1 x 0)"
    by (rule argmax_from_inv) simp_all
  then show "k < length xs" and "\<forall>j<length xs. xs ! j \<le> xs ! k" and "\<forall>j<k. xs ! j < xs ! k"
    using xs k by simp_all
qed

lemma np_argmax_nonempty: "xs \<noteq> [] \<Longrightarrow> \<exists>k. np_argmax xs = Inr k"
  by (cases xs) (simp_all add: np_argmax_def)

lemma np_argmax_Inl: "np_argmax xs = Inl e \<Longrightarrow> xs = [] \<and> e = ValueError"
  by (cases xs) (simp_all add: np_argmax_def)

lemma np_argmax_Nil: "np_argmax [] = Inl ValueError"
  by (simp add: np_argmax_def)

subsection \<open>Slices and lags\<close>

lemma py_slice_inside:
  assumes "0 \<le> i" and "i \<le> j" and "j \<le> int (length xs)"
  shows "py_slice xs i j = take (nat (j - i)) (drop (nat i) xs)"
  using assms by (simp add: py_slice_def Let_def min_def)

lemma length_py_slice_inside:
  assumes "0 \<le> i" and "i \<le> j" and "j \<le> int (length xs)"
  shows "int (length (py_slice xs i j)) = j - i"
  using assms by (simp add: py_slice_inside)

lemma nth_py_slice_inside:
  assumes "0 \<le> i" and "i \<le> j" and "j \<le> int (length xs)" and "t < nat (j - i)"
  shows "py_slice xs i j ! t = xs ! (nat i + t)"
  using assms by (simp add: py_slice_inside)

lemma py_slice_eq_map_nth:
  assumes "0 \<le> i" and "i \<le> j" and "j \<le> int (length xs)"
  shows "py_slice xs i j = map (\<lambda>t. xs ! t) [nat i..<nat j]"
proof (rule nth_equalityI)
  show "length (py_slice xs i j) = length (map (\<lambda>t. xs ! t) [nat i..<nat j])"
    using assms by (simp add: py_slice_inside)
next
  fix t assume "t < length (py_slice xs i j)"
  then have t: "t < nat (j - i)" using assms by (simp add: py_slice_inside)
  then have "nat i + t < nat j" using assms by linarith
  then show "py_slice xs i j ! t = map (\<lambda>t. xs ! t) [nat i..<nat j] ! t"
    using assms t by (simp add: nth_py_slice_inside)
qed


lemma correlation_lags_shape:
  assumes "1 \<le> n"
  shows "length (correlation_lags L n) = L"
    and "\<forall>j<L. correlation_lags L n ! j = first_lag L n + int j"
proof -
  define lags where "lags = [- int n + 1 .. int L - 1]"
  define lo where "lo = int (length lags) div 2 - int L div 2"
  define hi where "hi = (if L mod 2 = 0 then int (length lags) div 2 + int L div 2
                         else int (length lags) div 2 + int L div 2 + 1)"
  have len: "int (length lags) = int L + int n - 1"
    using assms by (simp add: lags_def)
  have lo: "lo = (int L + int n - 1) div 2 - int L div 2"
    by (simp add: lo_def len)
  have lo0: "0 \<le> lo"
    using assms unfolding lo by (simp add: zdiv_mono1)
  have hilo: "hi - lo = int L"
    unfolding hi_def lo_def by presburger
  have hi: "hi \<le> int (length lags)"
    using assms unfolding hi_def len by presburger
  have lohi: "lo \<le> hi"
    using hilo by linarith
  have cl: "correlation_lags L n = py_slice lags lo hi"
    by (simp add: correlation_lags_def Let_def lags_def lo_def hi_def)
  have "int (length (correlation_lags L n)) = int L"
    using length_py_slice_inside [OF lo0 lohi hi] hilo cl by simp
  then show "length (correlation_lags L n) = L"
    by simp
  show "\<forall>j<L. correlation_lags L n ! j = first_lag L n + int j"
  proof (intro allI impI)
    fix j assume j: "j < L"
    then have jt: "j < nat (hi - lo)"
      using hilo by linarith
    have inside: "- int n + 1 + int (nat lo + j) \<le> int L - 1"
      using j lo0 hi hilo len by linarith
    have "correlation_lags L n ! j = lags ! (nat lo + j)"
      using nth_py_slice_inside [OF lo0 lohi hi jt] cl by simp
    also have "\<dots> = - int n + 1 + int (nat lo + j)"
      unfolding lags_def using inside by (rule nth_upto)
    also have "\<dots> = first_lag L n + int j"
      using lo0 unfolding first_lag_def lo by simp
    finally show "correlation_lags L n ! j = first_lag L n + int j" .
  qed
qed

subsection \<open>Rounding to a double\<close>

lemma round_half_even_of_int: "round_half_even (real_of_int m) = m"
  by (simp add: round_half_even_def)

lemma round_half_even_nonneg: "0 \<le> x \<Longrightarrow> 0 \<le> round_half_even x"
  unfolding round_half_even_def Let_def by (simp split: if_splits; linarith)

lemma round_half_even_nonpos: "x \<le> 0 \<Longrightarrow> round_half_even x \<le> 0"
  unfolding round_half_even_def Let_def by (simp split: if_splits; linarith)

lemma double_round_nonneg: "0 \<le> x \<Longrightarrow> 0 \<le> double_round x"
  by (simp add: double_round_def round_half_even_nonneg)

lemma double_round_nonpos: "x \<le> 0 \<Longrightarrow> double_round x \<le> 0"
  by (simp add: double_round_def round_half_even_nonpos mult_le_0_iff divide_le_0_iff)

lemma double_exponent_eq:
  assumes "x \<noteq> 0" and "2 powr real_of_int e \<le> \<bar>x\<bar>" and "\<bar>x\<bar> < 2 powr (real_of_int e + 1)"
  shows "double_exponent x = e"
  unfolding double_exponent_def using assms
  by (subst floor_log_eq_powr_iff) (simp_all add: add.commute)

lemma double_round_eval:
  assumes "x \<noteq> 0" and "2 powr real_of_int e \<le> \<bar>x\<bar>" and "\<bar>x\<bar> < 2 powr (real_of_int e + 1)"
  shows "double_round x =
           real_of_int (round_half_even (x / 2 powr real_of_int (e - 52)))
             * 2 powr real_of_int (e - 52)"
  using assms(1) by (simp add: double_round_def double_exponent_eq [OF assms])

lemma double_round_of_int:
  assumes "\<bar>k\<bar> < 2 ^ 53"
  shows "double_round (real_of_int k) = real_of_int k"
proof (cases "k = 0")
  case True
  then show ?thesis by (simp add: double_round_def)
next
  case False
  define e where "e = double_exponent (real_of_int k)"
  have pos: "0 < \<bar>real_of_int k\<bar>" using False by simp
  have one: "1 \<le> \<bar>real_of_int k\<bar>" using False by (simp add: abs_if) 
  have lt: "\<bar>real_of_int k\<bar> < 2 ^ 53"
  proof -
    have "real_of_int \<bar>k\<bar> < real_of_int (2 ^ 53)" using assms by (simp only: of_int_less_iff)
    then show ?thesis by simp
  qed
  have "0 \<le> log 2 \<bar>real_of_int k\<bar>" using one by simp
  then have e0: "0 \<le> e" unfolding e_def double_exponent_def by simp
  have "log 2 \<bar>real_of_int k\<bar> < 53"
    using lt pos by (simp add: log_less_iff powr_realpow [of 2 53, simplified])
  then have e52: "e \<le> 52" unfolding e_def double_exponent_def by linarith
  define m where "m = nat (52 - e)"
  have u: "2 powr (real_of_int e - 52) = 1 / 2 ^ m"
  proof -
    have "real_of_int e - 52 = - real m" using e52 by (simp add: m_def)
    then show ?thesis by (simp add: powr_minus_divide powr_realpow)
  qed
  have "real_of_int k / 2 powr (real_of_int e - 52) = real_of_int (k * 2 ^ m)"
    by (simp add: u)
  then have "round_half_even (real_of_int k / 2 powr (real_of_int e - 52)) = k * 2 ^ m"
    by (simp only: round_half_even_of_int)
  then show ?thesis
    using False by (simp add: double_round_def e_def [symmetric] u)
qed

lemma float_mul_one: "\<bar>z\<bar> < 2 ^ 53 \<Longrightarrow> float_mul z 1 = real_of_int z"
  by (simp add: float_mul_def double_round_of_int)

lemma float_mul_7_quarter: "float_mul 7 (1 / 4) = 7 / 4"
proof -
  have "double_round (7 / 4) = 7 / 4"
    by (subst double_round_eval [where e = 0])
       (simp_all add: round_half_even_def powr_minus_divide)
  moreover have "double_round (real_of_int 7) = 7"
    using double_round_of_int [of 7] by simp
  ultimately show ?thesis by (simp add: float_mul_def)
qed

lemma float_mul_10_07: "float_mul 10 (3152519739159347 / 4503599627370496) = 7"
proof -
  have "double_round (10 * (3152519739159347 / 4503599627370496)) = 7"
    by (subst double_round_eval [where e = 2])
       (simp_all add: round_half_even_def powr_minus_divide)
  moreover have "double_round (real_of_int 10) = 10"
    using double_round_of_int [of 10] by simp
  ultimately show ?thesis by (simp add: float_mul_def)
qed

lemma float_mul_3_third: "float_mul 3 (6004799503160661 / 18014398509481984) = 1"
proof -
  have "double_round (3 * (6004799503160661 / 18014398509481984)) = 1"
    by (subst double_round_eval [where e = "- 1"])
       (simp_all add: round_half_even_def powr_minus_divide)
  moreover have "double_round (real_of_int 3) = 3"
    using double_round_of_int [of 3] by simp
  ultimately show ?thesis by (simp add: float_mul_def)
qed

lemma uniform_filter_length_one:
  "\<bar>z\<bar> < 2 ^ 53 \<Longrightarrow> uniform_filter_length z 1 = z"
  by (simp add: uniform_filter_length_def float_mul_one py_int_def)

lemma uniform_filter_length_0_1: "uniform_filter_length 0 1 = 0"
  by (simp add: uniform_filter_length_one)

lemma uniform_filter_length_2_1: "uniform_filter_length 2 1 = 2"
  by (simp add: uniform_filter_length_one)

lemma uniform_filter_length_3_1: "uniform_filter_length 3 1 = 3"
  by (simp add: uniform_filter_length_one)

lemma float_mul_sign:
  assumes "real_of_int z * r \<le> 0"
  shows "float_mul z r \<le> 0"
proof -
  have "double_round (real_of_int z) * r \<le> 0"
  proof (cases "0 \<le> z")
    case True
    then have "0 \<le> double_round (real_of_int z)" by (simp add: double_round_nonneg)
    moreover have "r \<le> 0 \<or> z = 0" using assms True by (auto simp: mult_le_0_iff)
    ultimately show ?thesis by (auto simp: mult_le_0_iff double_round_def)
  next
    case False
    then have "double_round (real_of_int z) \<le> 0" by (simp add: double_round_nonpos)
    moreover have "0 \<le> r" using assms False by (auto simp: mult_le_0_iff)
    ultimately show ?thesis by (simp add: mult_le_0_iff)
  qed
  then show ?thesis unfolding float_mul_def by (rule double_round_nonpos)
qed

lemma float_mul_nonneg:
  assumes "0 \<le> z" and "0 \<le> r"
  shows "0 \<le> float_mul z r"
  unfolding float_mul_def using assms by (intro double_round_nonneg mult_nonneg_nonneg) simp_all

subsection \<open>Truncation toward zero\<close>

lemma py_int_of_int: "py_int (of_int z) = z"
  by (simp add: py_int_def)

lemma py_int_half:
  "py_int (real_of_int z - 1 / 2) = (if z \<le> 0 then z else z - 1)"
proof -
  have f: "\<lfloor>real_of_int z - 1 / 2\<rfloor> = z - 1" by linarith
  have c: "\<lceil>real_of_int z - 1 / 2\<rceil> = z" by linarith
  have neg: "real_of_int z - 1 / 2 < 0 \<longleftrightarrow> z \<le> 0" by linarith
  show ?thesis unfolding py_int_def neg f c by simp
qed

lemma py_int_centre:
  "py_int (real k - real_of_int w / 2) =
     (if even w \<or> 2 * int k \<le> w then int k - w div 2 else int k - w div 2 - 1)"
proof (cases "even w")
  case True
  then obtain m where w: "w = 2 * m" by (auto elim: evenE)
  have "real k - real_of_int w / 2 = real_of_int (int k - m)" by (simp add: w)
  then have "py_int (real k - real_of_int w / 2) = int k - m" by (simp only: py_int_of_int)
  then show ?thesis using True by (simp add: w)
next
  case False
  then obtain m where w: "w = 2 * m + 1" by (auto elim: oddE)
  have "real k - real_of_int w / 2 = real_of_int (int k - m) - 1 / 2" by (simp add: w field_simps)
  then have "py_int (real k - real_of_int w / 2) = (if int k - m \<le> 0 then int k - m else int k - m - 1)"
    by (simp only: py_int_half)
  moreover have "w div 2 = m" by (simp add: w)
  moreover have "2 * int k \<le> w \<longleftrightarrow> int k - m \<le> 0" unfolding w by linarith
  ultimately show ?thesis using False by simp
qed

lemma py_int_centre_bounds:
  assumes "1 \<le> w"
  shows "- (w div 2) \<le> py_int (real k - real_of_int w / 2)"
    and "py_int (real k - real_of_int w / 2) \<le> int k"
  using assms unfolding py_int_centre by (auto split: if_splits) 

section \<open>The stages of the function\<close>

subsection \<open>Coarse estimate\<close>

lemma uniform_filter1d_Inr:
  "1 \<le> w \<Longrightarrow> \<exists>env. uniform_filter1d xs w = Inr env \<and> length env = length xs"
  by (simp add: uniform_filter1d_def)

lemma envelope_Inr:
  assumes "1 \<le> uniform_filter_length zc_length resample"
  shows "\<exists>env. envelope data zc_length resample = Inr env \<and> length env = length data"
  using assms by (simp add: envelope_def uniform_filter1d_def)

lemma approx_zc_small_window:
  "uniform_filter_length zc_length resample < 1 \<Longrightarrow>
     approx_zc data zc_length resample = Inl RuntimeError"
  by (simp add: approx_zc_def envelope_def uniform_filter1d_def)

lemma approx_zc_empty:
  "1 \<le> uniform_filter_length zc_length resample \<Longrightarrow>
     approx_zc [] zc_length resample = Inl ValueError"
  by (simp add: approx_zc_def envelope_def uniform_filter1d_def np_argmax_def)

lemma approx_zc_cases:
  "approx_zc data zc_length resample =
     (if uniform_filter_length zc_length resample < 1 then Inl RuntimeError
      else if data = [] then Inl ValueError
      else case envelope data zc_length resample of
             Inl e \<Rightarrow> Inl e
           | Inr env \<Rightarrow> (case np_argmax env of
                 Inl e \<Rightarrow> Inl e
               | Inr k \<Rightarrow> Inr (py_int (real k -
                     real_of_int (uniform_filter_length zc_length resample) / 2))))"
  by (simp add: approx_zc_def envelope_def uniform_filter1d_def np_argmax_def)

lemma approx_zc_Inr:
  assumes "approx_zc data zc_length resample = Inr a"
  shows "\<exists>env k. 1 \<le> uniform_filter_length zc_length resample \<and> data \<noteq> [] \<and>
           envelope data zc_length resample = Inr env \<and> length env = length data \<and>
           np_argmax env = Inr k \<and> k < length data \<and>
           a = py_int (real k - real_of_int (uniform_filter_length zc_length resample) / 2)"
proof -
  let ?w = "uniform_filter_length zc_length resample"
  from assms have w: "1 \<le> ?w" and d: "data \<noteq> []"
    by (auto simp: approx_zc_cases split: if_splits)
  from envelope_Inr [OF w] obtain env where
    env: "envelope data zc_length resample = Inr env" and len: "length env = length data"
    by blast
  from assms env obtain k where k: "np_argmax env = Inr k"
    and a: "a = py_int (real k - real_of_int ?w / 2)"
    by (auto simp: approx_zc_def split: sum.splits)
  from np_argmax_Inr(1) [OF k] len have "k < length data" by simp
  with w d env len k a show ?thesis by blast
qed

lemma approx_zc_returns:
  assumes "data \<noteq> []" and "1 \<le> uniform_filter_length zc_length resample"
  shows "\<exists>a. approx_zc data zc_length resample = Inr a"
proof -
  from envelope_Inr [OF assms(2)] obtain env where
    env: "envelope data zc_length resample = Inr env" and len: "length env = length data"
    by blast
  from len assms(1) have "env \<noteq> []" by auto
  from np_argmax_nonempty [OF this] obtain k where "np_argmax env = Inr k" ..
  with env show ?thesis by (simp add: approx_zc_def)
qed

lemma approx_zc_range:
  assumes "approx_zc data zc_length resample = Inr a"
  shows "- (uniform_filter_length zc_length resample div 2) \<le> a" and "a < int (length data)"
proof -
  from approx_zc_Inr [OF assms] obtain k where
    w: "1 \<le> uniform_filter_length zc_length resample" and k: "k < length data" and
    a: "a = py_int (real k - real_of_int (uniform_filter_length zc_length resample) / 2)"
    by blast
  from py_int_centre_bounds [OF w, of k] a k
  show "- (uniform_filter_length zc_length resample div 2) \<le> a" and "a < int (length data)"
    by simp_all
qed

subsection \<open>Search window and correlation\<close>

lemma window_bounds:
  assumes "approx_zc data zc_length resample = Inr a"
  shows "0 \<le> xcorr_start_point a n"
    and "xcorr_start_point a n < int (length data)"
    and "xcorr_end_point a n (length data) \<le> int (length data)"
proof -
  from approx_zc_Inr [OF assms] have "data \<noteq> []" by blast
  with approx_zc_range(2) [OF assms]
  show "0 \<le> xcorr_start_point a n"
    and "xcorr_start_point a n < int (length data)"
    and "xcorr_end_point a n (length data) \<le> int (length data)"
    by (simp_all add: xcorr_start_point_def xcorr_end_point_def)
qed

lemma window_ordered:
  assumes "approx_zc data zc_length resample = Inr a"
    and "uniform_filter_length zc_length resample \<le> 4 * int n"
  shows "xcorr_start_point a n \<le> xcorr_end_point a n (length data)"
proof -
  from assms(2) have "uniform_filter_length zc_length resample div 2 \<le> 2 * int n" by linarith
  with approx_zc_range [OF assms(1)] show ?thesis
    unfolding xcorr_start_point_def xcorr_end_point_def by linarith
qed

lemma window_nonempty:
  assumes "approx_zc data zc_length resample = Inr a"
    and "uniform_filter_length zc_length resample < 4 * int n"
  shows "xcorr_start_point a n < xcorr_end_point a n (length data)"
proof -
  from approx_zc_Inr [OF assms(1)] have d: "0 < int (length data)"
    and w: "1 \<le> uniform_filter_length zc_length resample" by auto
  from assms(2) w have "uniform_filter_length zc_length resample div 2 < 2 * int n"
    and "0 < int n" by linarith+
  with approx_zc_range [OF assms(1)] d show ?thesis
    unfolding xcorr_start_point_def xcorr_end_point_def by linarith
qed

lemma data_zc_sublist:
  assumes "approx_zc data zc_length resample = Inr a"
    and "xcorr_start_point a n \<le> xcorr_end_point a n (length data)"
  shows "data_zc data a n =
           map (\<lambda>t. data ! t)
             [nat (xcorr_start_point a n)..<nat (xcorr_end_point a n (length data))]"
  unfolding data_zc_def
  using window_bounds(1) [OF assms(1)] assms(2) window_bounds(3) [OF assms(1)]
  by (rule py_slice_eq_map_nth)

lemma correlate_same_Inr:
  assumes "in1 \<noteq> []" and "in2 \<noteq> []"
  shows "\<exists>xc. correlate_same cj in1 in2 = Inr xc \<and> length xc = length in1"
  using assms by (simp add: correlate_same_def)

lemma correlate_same_Inl:
  "correlate_same cj in1 in2 = Inl e \<Longrightarrow> (in1 = [] \<or> in2 = []) \<and> e = ValueError"
  by (auto simp: correlate_same_def split: if_splits)

lemma argmax_xcorr_Inr:
  assumes "argmax_xcorr dzc p use_abs = Inr k"
  shows "dzc \<noteq> []" and "p \<noteq> []" and "k < length dzc"
proof -
  have ne: "dzc \<noteq> [] \<and> p \<noteq> []"
    using assms
    by (auto simp: argmax_xcorr_def xcorr_abs_def xcorr_raw_def correlate_same_def
             split: if_splits sum.splits)
  then show "dzc \<noteq> []" and "p \<noteq> []" by simp_all
  show "k < length dzc"
  proof (cases use_abs)
    case True
    from ne obtain xc where xc: "xcorr_abs dzc p = Inr xc" and len: "length xc = length dzc"
      using correlate_same_Inr [of "map cmod dzc" "map cmod p" "\<lambda>x. x"]
      by (auto simp: xcorr_abs_def)
    with assms True have "np_argmax xc = Inr k" by (simp add: argmax_xcorr_def)
    from np_argmax_Inr(1) [OF this] len show ?thesis by simp
  next
    case False
    from ne obtain xc where xc: "xcorr_raw dzc p = Inr xc" and len: "length xc = length dzc"
      using correlate_same_Inr [of dzc p cnj] by (auto simp: xcorr_raw_def)
    with assms False have "np_argmax (map complex_key xc) = Inr k" by (simp add: argmax_xcorr_def)
    from np_argmax_Inr(1) [OF this] len show ?thesis by simp
  qed
qed

lemma argmax_xcorr_abs:
  assumes "argmax_xcorr dzc p True = Inr k"
  shows "\<exists>xc. xcorr_abs dzc p = Inr xc \<and> length xc = length dzc \<and> np_argmax xc = Inr k"
proof -
  from argmax_xcorr_Inr(1,2) [OF assms]
  obtain xc where xc: "xcorr_abs dzc p = Inr xc" and len: "length xc = length dzc"
    using correlate_same_Inr [of "map cmod dzc" "map cmod p" "\<lambda>x. x"]
    by (auto simp: xcorr_abs_def)
  with assms show ?thesis by (simp add: argmax_xcorr_def)
qed

lemma argmax_xcorr_raw:
  assumes "argmax_xcorr dzc p False = Inr k"
  shows "\<exists>xc. xcorr_raw dzc p = Inr xc \<and> length xc = length dzc \<and>
              np_argmax (map complex_key xc) = Inr k"
proof -
  from argmax_xcorr_Inr(1,2) [OF assms]
  obtain xc where xc: "xcorr_raw dzc p = Inr xc" and len: "length xc = length dzc"
    using correlate_same_Inr [of dzc p cnj] by (auto simp: xcorr_raw_def)
  with assms show ?thesis by (simp add: argmax_xcorr_def)
qed

lemma argmax_xcorr_returns:
  assumes "dzc \<noteq> []" and "p \<noteq> []"
  shows "\<exists>k. argmax_xcorr dzc p use_abs = Inr k"
proof (cases use_abs)
  case True
  from assms obtain xc where xc: "xcorr_abs dzc p = Inr xc" and len: "length xc = length dzc"
    using correlate_same_Inr [of "map cmod dzc" "map cmod p" "\<lambda>x. x"]
    by (auto simp: xcorr_abs_def)
  from len assms(1) have "xc \<noteq> []" by auto
  from np_argmax_nonempty [OF this] xc True show ?thesis by (simp add: argmax_xcorr_def)
next
  case False
  from assms obtain xc where xc: "xcorr_raw dzc p = Inr xc" and len: "length xc = length dzc"
    using correlate_same_Inr [of dzc p cnj] by (auto simp: xcorr_raw_def)
  from len assms(1) have "map complex_key xc \<noteq> []" by auto
  from np_argmax_nonempty [OF this] xc False show ?thesis by (simp add: argmax_xcorr_def)
qed

lemma windowed_correlator_Inr:
  assumes "windowed_correlator data p a use_abs = Inr (b, e)"
  shows "\<exists>k. argmax_xcorr (data_zc data a (length p)) p use_abs = Inr k \<and>
             k < length (data_zc data a (length p)) \<and>
             b = correlation_lags (length (data_zc data a (length p))) (length p) ! k
                   + xcorr_start_point a (length p) \<and>
             e = int (length p) + b"
proof -
  from assms obtain k where
    k: "argmax_xcorr (data_zc data a (length p)) p use_abs = Inr k"
    by (auto simp: windowed_correlator_def Let_def split: sum.splits)
  from argmax_xcorr_Inr(3) [OF k] have kl: "k < length (data_zc data a (length p))" .
  from assms k show ?thesis
    using kl by (auto simp: windowed_correlator_def Let_def py_index_def split: sum.splits if_splits)
qed

lemma windowed_correlator_returns:
  assumes "data_zc data a (length p) \<noteq> []" and "p \<noteq> []"
  shows "\<exists>b. windowed_correlator data p a use_abs = Inr (b, int (length p) + b)"
proof -
  from argmax_xcorr_returns [OF assms] obtain k where
    k: "argmax_xcorr (data_zc data a (length p)) p use_abs = Inr k" ..
  from argmax_xcorr_Inr(3) [OF k] have kl: "k < length (data_zc data a (length p))" .
  from assms(2) have "1 \<le> length p" by (cases p) simp_all
  from correlation_lags_shape(1) [OF this] kl
  have "k < length (correlation_lags (length (data_zc data a (length p))) (length p))" by simp
  with k show ?thesis
    by (simp add: windowed_correlator_def Let_def py_index_def)
qed

lemma synchronisation_zc_Inr:
  assumes "synchronisation_zc zcsequence upsample data zc_root zc_length resample use_abs
             ratio_approx = Inr (b, e)"
  shows "\<exists>a. approx_zc data zc_length resample = Inr a \<and>
             windowed_correlator data (upsample (zcsequence zc_root zc_length) resample 0)
               a use_abs = Inr (b, e)"
  using assms by (auto simp: synchronisation_zc_def split: sum.splits)

lemma synchronisation_zc_returns:
  assumes "data \<noteq> []"
    and "1 \<le> uniform_filter_length zc_length resample"
    and "uniform_filter_length zc_length resample
           < 4 * int (length (upsample (zcsequence zc_root zc_length) resample 0))"
  shows "\<exists>b. synchronisation_zc zcsequence upsample data zc_root zc_length resample use_abs
               ratio_approx
             = Inr (b, int (length (upsample (zcsequence zc_root zc_length) resample 0)) + b)"
proof -
  let ?p = "upsample (zcsequence zc_root zc_length) resample 0"
  from approx_zc_returns [OF assms(1,2)] obtain a where
    a: "approx_zc data zc_length resample = Inr a" ..
  from assms(2,3) have p: "?p \<noteq> []" by auto
  have lt: "xcorr_start_point a (length ?p) < xcorr_end_point a (length ?p) (length data)"
    using a assms(3) by (rule window_nonempty)
  then have le: "xcorr_start_point a (length ?p) \<le> xcorr_end_point a (length ?p) (length data)"
    by simp
  have "int (length (data_zc data a (length ?p))) =
          xcorr_end_point a (length ?p) (length data) - xcorr_start_point a (length ?p)"
    unfolding data_zc_def
    using window_bounds(1) [OF a] le window_bounds(3) [OF a]
    by (rule length_py_slice_inside)
  with lt have "data_zc data a (length ?p) \<noteq> []" by auto
  from windowed_correlator_returns [OF this p] a show ?thesis
    by (simp add: synchronisation_zc_def)
qed

subsection \<open>Which exceptions can be raised\<close>

lemma np_argmax_error: "np_argmax xs = Inl e \<Longrightarrow> e = ValueError"
  by (cases xs) (simp_all add: np_argmax_def)

lemma approx_zc_error:
  assumes "approx_zc data zc_length resample = Inl e"
  shows "e = RuntimeError \<or> e = ValueError"
  using assms
  by (auto simp: approx_zc_def envelope_def uniform_filter1d_def
           split: if_splits sum.splits dest: np_argmax_error)

lemma argmax_xcorr_error:
  assumes "argmax_xcorr dzc p use_abs = Inl e"
  shows "e = ValueError"
  using assms
  by (auto simp: argmax_xcorr_def xcorr_abs_def xcorr_raw_def
           split: if_splits sum.splits dest: np_argmax_error correlate_same_Inl)

lemma windowed_correlator_error:
  assumes "windowed_correlator data p a use_abs = Inl e"
  shows "e = ValueError \<or> e = IndexError"
  using assms
  by (auto simp: windowed_correlator_def Let_def py_index_def
           split: if_splits sum.splits dest: argmax_xcorr_error)

lemma synchronisation_zc_error:
  assumes "synchronisation_zc zcsequence upsample data zc_root zc_length resample use_abs
             ratio_approx = Inl e"
  shows "e = RuntimeError \<or> e = ValueError \<or> e = IndexError"
  using assms
  by (auto simp: synchronisation_zc_def split: sum.splits
           dest: approx_zc_error windowed_correlator_error)

subsection \<open>Further facts used by the claims\<close>

lemma py_int_truncates:
  "\<bar>real_of_int (py_int x)\<bar> \<le> \<bar>x\<bar> \<and> \<bar>x - real_of_int (py_int x)\<bar> < 1"
  unfolding py_int_def by (simp split: if_splits; linarith)

lemma envelope_nth:
  assumes "envelope data zc_length resample = Inr env" and "i < length data"
  shows "env ! i =
           window_sum (map cmod data)
             (int i - uniform_filter_length zc_length resample div 2)
             (nat (uniform_filter_length zc_length resample))
           / real_of_int (uniform_filter_length zc_length resample)"
  using assms by (auto simp: envelope_def uniform_filter1d_def split: if_splits)

lemma correlation_lags_increasing:
  assumes "1 \<le> n" and "i \<le> j" and "j < L"
  shows "correlation_lags L n ! i \<le> correlation_lags L n ! j"
  using correlation_lags_shape(2) [OF assms(1), of L] assms(2,3) by simp

lemma synchronisation_zc_stages:
  assumes "synchronisation_zc zcsequence upsample data zc_root zc_length resample use_abs
             ratio_approx = Inr (b, e)"
  shows "\<exists>a k. approx_zc data zc_length resample = Inr a \<and>
           argmax_xcorr
             (data_zc data a (length (upsample (zcsequence zc_root zc_length) resample 0)))
             (upsample (zcsequence zc_root zc_length) resample 0) use_abs = Inr k \<and>
           k < length (data_zc data a (length (upsample (zcsequence zc_root zc_length) resample 0))) \<and>
           b = correlation_lags
                 (length (data_zc data a (length (upsample (zcsequence zc_root zc_length) resample 0))))
                 (length (upsample (zcsequence zc_root zc_length) resample 0)) ! k
               + xcorr_start_point a (length (upsample (zcsequence zc_root zc_length) resample 0)) \<and>
           e = int (length (upsample (zcsequence zc_root zc_length) resample 0)) + b"
proof -
  from synchronisation_zc_Inr [OF assms] obtain a where
    a: "approx_zc data zc_length resample = Inr a" and
    wc: "windowed_correlator data (upsample (zcsequence zc_root zc_length) resample 0) a use_abs
           = Inr (b, e)"
    by blast
  from windowed_correlator_Inr [OF wc] a show ?thesis by blast
qed

text \<open>
  Output \<open>i\<close> of \<^const>\<open>correlate_same\<close> is the correlation at lag \<open>i - n div 2\<close>. The
  labels of \<^const>\<open>correlation_lags\<close> start at \<open>- (n div 2)\<close> as well, except when the
  first length is odd and the second even: then every label is one more than the lag of
  the output it is paired with.
\<close>

lemma first_lag_centre:
  assumes "1 \<le> n"
  shows "first_lag L n = - int (n div 2) + (if odd L \<and> even n then 1 else 0)"
proof -
  have "- int n + 1 + (int L + int n - 1) div 2 - int L div 2
          = - (int n div 2) + (if odd (int L) \<and> even (int n) then 1 else 0)"
    using assms by presburger
  then show ?thesis by (simp add: first_lag_def zdiv_int)
qed

text \<open>
  Lines 94 to 101 in one equation: the index check of \<^verbatim>\<open>lags[...]\<close> never fails, since the
  lag vector is as long as the correlation.
\<close>

lemma windowed_correlator_eq:
  "windowed_correlator data p a use_abs =
     (case argmax_xcorr (data_zc data a (length p)) p use_abs of
        Inl err \<Rightarrow> Inl err
      | Inr k \<Rightarrow>
          Inr (correlation_lags (length (data_zc data a (length p))) (length p) ! k
                 + xcorr_start_point a (length p),
               int (length p)
                 + (correlation_lags (length (data_zc data a (length p))) (length p) ! k
                      + xcorr_start_point a (length p))))"
proof (cases "argmax_xcorr (data_zc data a (length p)) p use_abs")
  case (Inl err)
  then show ?thesis by (simp add: windowed_correlator_def Let_def)
next
  case (Inr k)
  from argmax_xcorr_Inr(3) [OF Inr] have kl: "k < length (data_zc data a (length p))" .
  from argmax_xcorr_Inr(2) [OF Inr] have "1 \<le> length p" by (cases p) simp_all
  from correlation_lags_shape(1) [OF this] kl
  have "k < length (correlation_lags (length (data_zc data a (length p))) (length p))" by simp
  with Inr show ?thesis by (simp add: windowed_correlator_def Let_def py_index_def)
qed

lemma windowed_correlator_no_index_error:
  "windowed_correlator data p a use_abs \<noteq> Inl IndexError"
  unfolding windowed_correlator_eq
  by (auto split: sum.splits dest: argmax_xcorr_error)

text \<open>
  The returned beginning against the lag at which the correlation is largest. Output
  \<open>k\<close> of the same-mode correlation is the correlation at lag \<open>k - n div 2\<close>; the
  beginning is that lag plus the start of the window, and one more when the window has
  odd length and the pilot even length.
\<close>

lemma beginning_and_lag_of_maximum:
  assumes "synchronisation_zc zcsequence upsample data zc_root zc_length resample use_abs
             ratio_approx = Inr (b, e)"
    and "p = upsample (zcsequence zc_root zc_length) resample 0"
  shows "\<exists>a k. approx_zc data zc_length resample = Inr a \<and>
           argmax_xcorr (data_zc data a (length p)) p use_abs = Inr k \<and>
           b = (int k - int (length p div 2))
                 + (if odd (length (data_zc data a (length p))) \<and> even (length p) then 1 else 0)
                 + xcorr_start_point a (length p)"
proof -
  from synchronisation_zc_stages [OF assms(1)] assms(2) obtain a k where
    a: "approx_zc data zc_length resample = Inr a" and
    k: "argmax_xcorr (data_zc data a (length p)) p use_abs = Inr k" and
    kl: "k < length (data_zc data a (length p))" and
    b: "b = correlation_lags (length (data_zc data a (length p))) (length p) ! k
              + xcorr_start_point a (length p)"
    by auto
  from argmax_xcorr_Inr(2) [OF k] have n: "1 \<le> length p" by (cases p) simp_all
  from correlation_lags_shape(2) [OF n] kl
  have "correlation_lags (length (data_zc data a (length p))) (length p) ! k
          = first_lag (length (data_zc data a (length p))) (length p) + int k"
    by blast
  with b first_lag_centre [OF n, of "length (data_zc data a (length p))"]
  have "b = (int k - int (length p div 2))
              + (if odd (length (data_zc data a (length p))) \<and> even (length p) then 1 else 0)
              + xcorr_start_point a (length p)"
    by simp
  with a k show ?thesis by blast
qed

section \<open>Running the model\<close>

text \<open>The equations that evaluate the function on a concrete capture.\<close>

lemmas run_defs = synchronisation_zc_def approx_zc_def envelope_def uniform_filter_length_0_1
  uniform_filter_length_2_1 uniform_filter_length_3_1
  uniform_filter1d_def window_sum_def reflect_index_def py_int_def np_argmax_def
  windowed_correlator_def data_zc_def xcorr_start_point_def xcorr_end_point_def py_slice_def
  correlation_lags_def argmax_xcorr_def xcorr_abs_def xcorr_raw_def correlate_same_def
  py_index_def complex_key_def given_sequence_def unit_resampler_def Let_def upto.simps upt_rec
  numeral_nat

section \<open>The claims\<close>

text \<open>
  Claim C9: two calls that differ only in \<open>ratio_approx\<close> give the same outcome, result
  or exception: the parameter takes no part in the computation.
\<close>

theorem ratio_approx_unused:
  "synchronisation_zc zcsequence upsample data zc_root zc_length resample use_abs ratio_approx
   = synchronisation_zc zcsequence upsample data zc_root zc_length resample use_abs ratio_approx'"
  by (simp add: synchronisation_zc_def)

text \<open>
  Claim C3: whenever the function returns, the end index minus the beginning index is the
  length of the resampled pilot; and it does return on every non-empty capture whose
  averaging window is at least one sample and shorter than four pilot lengths.
\<close>

theorem end_minus_beginning:
  "(synchronisation_zc zcsequence upsample data zc_root zc_length resample use_abs ratio_approx
      = Inr (beginning_zc, end_zc) \<longrightarrow>
    end_zc - beginning_zc = int (length (upsample (zcsequence zc_root zc_length) resample 0)))
   \<and>
   (data \<noteq> [] \<and> 1 \<le> uniform_filter_length zc_length resample \<and>
    uniform_filter_length zc_length resample
      < 4 * int (length (upsample (zcsequence zc_root zc_length) resample 0)) \<longrightarrow>
    (\<exists>b. synchronisation_zc zcsequence upsample data zc_root zc_length resample use_abs
            ratio_approx
          = Inr (b, b + int (length (upsample (zcsequence zc_root zc_length) resample 0)))))"
proof (intro conjI impI)
  assume "synchronisation_zc zcsequence upsample data zc_root zc_length resample use_abs
            ratio_approx = Inr (beginning_zc, end_zc)"
  from synchronisation_zc_Inr [OF this] obtain a where
    "windowed_correlator data (upsample (zcsequence zc_root zc_length) resample 0) a use_abs
       = Inr (beginning_zc, end_zc)"
    by blast
  from windowed_correlator_Inr [OF this]
  show "end_zc - beginning_zc = int (length (upsample (zcsequence zc_root zc_length) resample 0))"
    by auto
next
  assume v: "data \<noteq> [] \<and> 1 \<le> uniform_filter_length zc_length resample \<and>
    uniform_filter_length zc_length resample
      < 4 * int (length (upsample (zcsequence zc_root zc_length) resample 0))"
  then have "\<exists>b. synchronisation_zc zcsequence upsample data zc_root zc_length resample use_abs
               ratio_approx
             = Inr (b, int (length (upsample (zcsequence zc_root zc_length) resample 0)) + b)"
    by (intro synchronisation_zc_returns) simp_all
  then show "\<exists>b. synchronisation_zc zcsequence upsample data zc_root zc_length resample use_abs
            ratio_approx
          = Inr (b, b + int (length (upsample (zcsequence zc_root zc_length) resample 0)))"
    by (simp add: add.commute)
qed

text \<open>
  An instance: the pilot of root 1 and length 2, which is \<open>1, -\<i>\<close>, at offset 2 of a capture
  of eight samples.
\<close>

theorem end_minus_beginning_witness:
  "synchronisation_zc (given_sequence [1, - \<i>]) unit_resampler [0, 0, 1, - \<i>, 0, 0, 0, 0] 1 2 1 True 50
     = Inr (2, 4) \<and>
   uniform_filter_length 2 1 = 2 \<and>
   (4::int) - 2 = int (length (unit_resampler (given_sequence [1, - \<i>] 1 2) 1 0))"
proof -
  have run: "synchronisation_zc (given_sequence [1, - \<i>]) unit_resampler
               [0, 0, 1, - \<i>, 0, 0, 0, 0] 1 2 1 True 50 = Inr (2, 4)"
    by (simp add: run_defs)
  have w: "uniform_filter_length 2 1 = 2"
    by (rule uniform_filter_length_2_1)
  from end_minus_beginning [of "given_sequence [1, - \<i>]" unit_resampler
         "[0, 0, 1, - \<i>, 0, 0, 0, 0]" 1 2 1 True 50 2 4] run
  have "(4::int) - 2 = int (length (unit_resampler (given_sequence [1, - \<i>] 1 2) 1 0))"
    by simp
  with run w show ?thesis by simp
qed

text \<open>
  Claim C10: some valid input gives a negative beginning index. A capture of one sample
  and a pilot of three samples (\<open>zc_length = 3\<close>, \<open>resample = 1\<close>) give \<open>(-1, 2)\<close>: the
  coarse estimate is \<open>int(0 - 1.5) = -1\<close>, the window is clipped to start at \<open>0\<close> and the
  only lag of the same-mode correlation is \<open>-1\<close>.
\<close>

theorem negative_beginning:
  assumes "length (upsample (zcsequence zc_root 3) 1 0) = 3"
  shows "synchronisation_zc zcsequence upsample [x] zc_root 3 1 use_abs ratio_approx = Inr (- 1, 2)"
proof -
  obtain p0 p1 p2 where p: "upsample (zcsequence zc_root 3) 1 0 = [p0, p1, p2]"
    using assms by (auto simp: length_Suc_conv numeral_3_eq_3)
  have a: "approx_zc [x] 3 1 = Inr (- 1)"
    by (simp add: approx_zc_def envelope_def uniform_filter_length_3_1 uniform_filter1d_def
          np_argmax_def py_int_def)
  have wc: "windowed_correlator [x] [p0, p1, p2] (- 1) use_abs = Inr (- 1, 2)"
    by (simp add: windowed_correlator_def data_zc_def xcorr_start_point_def xcorr_end_point_def
          py_slice_def argmax_xcorr_def xcorr_abs_def xcorr_raw_def correlate_same_def
          np_argmax_def correlation_lags_def py_index_def Let_def upto.simps)
  show ?thesis
    by (simp add: synchronisation_zc_def a p wc)
qed

text \<open>
  An instance with the Zadoff-Chu sequence of root 1 and length 3, whose middle entry is
  \<open>exp(-2\<pi>\<i>/3)\<close>.
\<close>

theorem negative_beginning_witness:
  "length (unit_resampler (given_sequence [1, Complex (- 1 / 2) (- sqrt 3 / 2), 1] 1 3) 1 0) = 3 \<and>
   synchronisation_zc (given_sequence [1, Complex (- 1 / 2) (- sqrt 3 / 2), 1]) unit_resampler
     [1] 1 3 1 True 50 = Inr (- 1, 2)"
  using negative_beginning [of unit_resampler "given_sequence [1, Complex (- 1 / 2) (- sqrt 3 / 2), 1]" 1 1 True 50]
  by (simp add: given_sequence_def unit_resampler_def)

text \<open>
  Claim C2: a pilot placed at offset \<open>o\<close> of an all-zero capture of length at least \<open>4n\<close>
  is reported at \<open>(o, o + n)\<close>. The function does not do so on the capture below: the pilot
  \<open>1, -\<i>\<close> (root 1, length 2, \<open>resample = 1\<close>) sits at offset 1 of nine samples, and the
  function returns \<open>(2, 4)\<close> with either value of \<open>use_abs\<close>. The window is clipped to the
  five samples \<open>0..4\<close>; the correlation peaks at its position 2, which is lag 1 of a
  same-mode correlation with a pilot of two samples, and \<open>correlation_lags(5, 2)\<close> labels
  that position with lag 2.
\<close>

theorem recovery_off_by_one:
  "synchronisation_zc (given_sequence [1, - \<i>]) unit_resampler
     [0, 1, - \<i>, 0, 0, 0, 0, 0, 0] 1 2 1 True 50 = Inr (2, 4) \<and>
   synchronisation_zc (given_sequence [1, - \<i>]) unit_resampler
     [0, 1, - \<i>, 0, 0, 0, 0, 0, 0] 1 2 1 False 50 = Inr (2, 4)"
  by (simp add: run_defs)

text \<open>
  Claim C6, as the specification words it: the averaging-window length is
  \<open>round(zc_length * resample)\<close>. It is not: with \<open>zc_length = 7\<close> and
  \<open>resample = 0.25\<close> the product is \<open>1.75\<close>, as a real and as a double, the function
  uses a window of \<open>1\<close> and rounding gives \<open>2\<close>.
\<close>

theorem window_length_not_rounded:
  "uniform_filter_length 7 (1 / 4) \<noteq> round (real_of_int 7 * (1 / 4))"
proof -
  have "uniform_filter_length 7 (1 / 4) = 1"
    by (simp add: uniform_filter_length_def float_mul_7_quarter py_int_def)
  moreover have "round (real_of_int 7 * (1 / 4)) = (2::int)"
    by (simp add: round_def)
  ultimately show ?thesis by simp
qed

text \<open>
  Claim C6: for positive \<open>zc_length\<close> and \<open>resample\<close> within the range of doubles, the
  averaging-window length used for the envelope is the double product
  \<open>zc_length * resample\<close> truncated, that is its floor: the nearest integer to that
  product when its fractional part is below one half, and one less than the nearest
  integer when the fractional part is above one half.
\<close>

theorem window_length_truncated:
  assumes "0 < zc_length" and "0 < resample" and "in_double_range zc_length resample"
  shows "uniform_filter_length zc_length resample = \<lfloor>float_mul zc_length resample\<rfloor> \<and>
         envelope data zc_length resample
           = uniform_filter1d (map cmod data) \<lfloor>float_mul zc_length resample\<rfloor> \<and>
         (frac (float_mul zc_length resample) < 1 / 2 \<longrightarrow>
            uniform_filter_length zc_length resample = round (float_mul zc_length resample)) \<and>
         (1 / 2 < frac (float_mul zc_length resample) \<longrightarrow>
            uniform_filter_length zc_length resample
              = round (float_mul zc_length resample) - 1)"
proof -
  let ?x = "float_mul zc_length resample"
  from assms(1,2) have "0 \<le> ?x" by (intro float_mul_nonneg) simp_all
  then have w: "uniform_filter_length zc_length resample = \<lfloor>?x\<rfloor>"
    by (simp add: uniform_filter_length_def py_int_def)
  have lo: "frac ?x < 1 / 2 \<longrightarrow> \<lfloor>?x\<rfloor> = round ?x"
    unfolding round_def frac_def by linarith
  have hi: "1 / 2 < frac ?x \<longrightarrow> \<lfloor>?x\<rfloor> = round ?x - 1"
    unfolding round_def frac_def by linarith
  from w lo hi show ?thesis by (simp add: envelope_def)
qed

text \<open>
  The instances \<open>7 * 0.25\<close>, whose double product is \<open>1.75\<close>, and \<open>10 * 0.7\<close>: the double
  nearest to \<open>0.7\<close> is \<open>3152519739159347 / 2 ^ 52\<close>, ten times it lies halfway between two
  doubles and rounds to \<open>7\<close>, so the window is \<open>7\<close> although the real product of the two
  operands is below \<open>7\<close>.
\<close>

theorem window_length_truncated_witness:
  "(0::int) < 7 \<and> (0::real) < 1 / 4 \<and> in_double_range 7 (1 / 4) \<and>
   float_mul 7 (1 / 4) = 7 / 4 \<and> uniform_filter_length 7 (1 / 4) = 1 \<and>
   in_double_range 10 (3152519739159347 / 2 ^ 52) \<and>
   float_mul 10 (3152519739159347 / 2 ^ 52) = 7 \<and>
   uniform_filter_length 10 (3152519739159347 / 2 ^ 52) = 7"
proof -
  have r1: "in_double_range 7 (1 / 4)"
    by (simp add: in_double_range_def)
  have r2: "in_double_range 10 (3152519739159347 / 2 ^ 52)"
    by (simp add: in_double_range_def)
  have w1: "uniform_filter_length 7 (1 / 4) = 1"
    using window_length_truncated [of 7 "1 / 4" "[]"] r1 by (simp add: float_mul_7_quarter)
  have w2: "uniform_filter_length 10 (3152519739159347 / 2 ^ 52) = 7"
    using window_length_truncated [of 10 "3152519739159347 / 2 ^ 52" "[]"] r2
    by (simp add: float_mul_10_07)
  from r1 r2 w1 w2 show ?thesis
    by (simp add: float_mul_7_quarter float_mul_10_07)
qed

text \<open>
  Claim C1, as the specification words it: a call with \<open>zc_length = 0\<close> raises
  \<^verbatim>\<open>InvalidParameterError\<close>. It does not.
\<close>

theorem no_validation_counterexample:
  "synchronisation_zc (given_sequence []) unit_resampler [1, 0] 1 0 1 True 50
     \<noteq> Inl InvalidParameterError"
  by (simp add: synchronisation_zc_def approx_zc_def envelope_def uniform_filter1d_def
        uniform_filter_length_0_1)

text \<open>
  Claim C1: the function validates nothing itself and never raises
  \<^verbatim>\<open>InvalidParameterError\<close>. For operands within the range of doubles: when
  \<open>zc_length\<close> or \<open>resample\<close> is zero, or exactly one of them is negative, and in general
  whenever the window length \<open>int(zc_length * resample)\<close> of line 76 is below one, the call
  ends in the \<^verbatim>\<open>RuntimeError\<close> of the uniform filter; when the window length is at
  least one and the capture is empty it ends in the \<^verbatim>\<open>ValueError\<close> of
  \<^verbatim>\<open>np.argmax\<close>.
\<close>

theorem invalid_parameters_fail_in_primitives:
  "(in_double_range zc_length resample \<and> real_of_int zc_length * resample \<le> 0 \<longrightarrow>
      synchronisation_zc zcsequence upsample data zc_root zc_length resample use_abs ratio_approx
        = Inl RuntimeError) \<and>
   (in_double_range zc_length resample \<and> uniform_filter_length zc_length resample < 1 \<longrightarrow>
      synchronisation_zc zcsequence upsample data zc_root zc_length resample use_abs ratio_approx
        = Inl RuntimeError) \<and>
   (in_double_range zc_length resample \<and> 1 \<le> uniform_filter_length zc_length resample \<longrightarrow>
      synchronisation_zc zcsequence upsample [] zc_root zc_length resample use_abs ratio_approx
        = Inl ValueError) \<and>
   synchronisation_zc zcsequence upsample data zc_root zc_length resample use_abs ratio_approx
     \<noteq> Inl InvalidParameterError"
proof (intro conjI impI)
  assume "in_double_range zc_length resample \<and> real_of_int zc_length * resample \<le> 0"
  then have "float_mul zc_length resample \<le> 0" by (intro float_mul_sign) simp
  then have "uniform_filter_length zc_length resample < 1"
    unfolding uniform_filter_length_def py_int_def by (simp split: if_splits; linarith)
  from approx_zc_small_window [OF this]
  show "synchronisation_zc zcsequence upsample data zc_root zc_length resample use_abs
          ratio_approx = Inl RuntimeError"
    by (simp add: synchronisation_zc_def)
next
  assume "in_double_range zc_length resample \<and> uniform_filter_length zc_length resample < 1"
  then have "uniform_filter_length zc_length resample < 1" by simp
  from approx_zc_small_window [OF this]
  show "synchronisation_zc zcsequence upsample data zc_root zc_length resample use_abs
          ratio_approx = Inl RuntimeError"
    by (simp add: synchronisation_zc_def)
next
  assume "in_double_range zc_length resample \<and> 1 \<le> uniform_filter_length zc_length resample"
  then have "1 \<le> uniform_filter_length zc_length resample" by simp
  from approx_zc_empty [OF this]
  show "synchronisation_zc zcsequence upsample [] zc_root zc_length resample use_abs
          ratio_approx = Inl ValueError"
    by (simp add: synchronisation_zc_def)
next
  show "synchronisation_zc zcsequence upsample data zc_root zc_length resample use_abs
          ratio_approx \<noteq> Inl InvalidParameterError"
    using synchronisation_zc_error [of zcsequence upsample data zc_root zc_length resample
            use_abs ratio_approx InvalidParameterError]
    by auto
qed

text \<open>
  The instances \<open>zc_length = 0\<close>; \<open>zc_length = 3\<close> with \<open>resample = 0.3333333333333333\<close>,
  the double \<open>6004799503160661 / 2 ^ 54\<close>, whose double product with \<open>3\<close> is \<open>1\<close>, so that
  the window is \<open>1\<close> and the filter accepts it; and the empty capture.
\<close>

theorem invalid_parameters_fail_in_primitives_witness:
  "in_double_range 0 1 \<and> real_of_int 0 * 1 \<le> (0::real) \<and>
   synchronisation_zc (given_sequence []) unit_resampler [1, 0] 1 0 1 True 50 = Inl RuntimeError \<and>
   in_double_range 3 (6004799503160661 / 2 ^ 54) \<and>
   uniform_filter_length 3 (6004799503160661 / 2 ^ 54) = 1 \<and>
   synchronisation_zc (given_sequence [1, 1, 1]) unit_resampler [] 1 3
     (6004799503160661 / 2 ^ 54) True 50 = Inl ValueError \<and>
   in_double_range 2 1 \<and> uniform_filter_length 2 1 = 2 \<and>
   synchronisation_zc (given_sequence [1, - \<i>]) unit_resampler [] 1 2 1 True 50 = Inl ValueError"
proof -
  have r0: "in_double_range 0 1" and r3: "in_double_range 3 (6004799503160661 / 2 ^ 54)"
    and r2: "in_double_range 2 1"
    by (simp_all add: in_double_range_def)
  have w3: "uniform_filter_length 3 (6004799503160661 / 2 ^ 54) = 1"
    by (simp add: uniform_filter_length_def float_mul_3_third py_int_def)
  have e0: "synchronisation_zc (given_sequence []) unit_resampler [1, 0] 1 0 1 True 50
              = Inl RuntimeError"
    using invalid_parameters_fail_in_primitives
            [of 0 1 "given_sequence []" unit_resampler "[1, 0]" 1 True 50] r0
    by simp
  have e3: "synchronisation_zc (given_sequence [1, 1, 1]) unit_resampler [] 1 3
              (6004799503160661 / 2 ^ 54) True 50 = Inl ValueError"
    using invalid_parameters_fail_in_primitives
            [of 3 "6004799503160661 / 2 ^ 54" "given_sequence [1, 1, 1]" unit_resampler "[]" 1
               True 50] r3 w3
    by simp
  have e2: "synchronisation_zc (given_sequence [1, - \<i>]) unit_resampler [] 1 2 1 True 50
              = Inl ValueError"
    using invalid_parameters_fail_in_primitives
            [of 2 1 "given_sequence [1, - \<i>]" unit_resampler "[]" 1 True 50] r2
    by (simp add: uniform_filter_length_2_1)
  from r0 r3 r2 w3 e0 e3 e2 show ?thesis
    by (simp add: uniform_filter_length_2_1)
qed

text \<open>
  Claim C7: on a non-empty capture with a window of at least one sample, the coarse
  estimate handed to the correlation stage is the difference \<open>argmax(envelope) - w / 2\<close>, taken over the reals and then
  truncated toward zero. The envelope has the length of the capture, each entry is the
  mean of \<open>w\<close> magnitudes around its position, and the argmax is its first maximum.
\<close>

theorem coarse_estimate_truncated:
  assumes "data \<noteq> []" and "1 \<le> uniform_filter_length zc_length resample"
  shows "\<exists>env k a.
           envelope data zc_length resample = Inr env \<and> length env = length data \<and>
           (\<forall>i<length data.
              env ! i = window_sum (map cmod data)
                          (int i - uniform_filter_length zc_length resample div 2)
                          (nat (uniform_filter_length zc_length resample))
                        / real_of_int (uniform_filter_length zc_length resample)) \<and>
           k < length env \<and> (\<forall>j<length env. env ! j \<le> env ! k) \<and> (\<forall>j<k. env ! j < env ! k) \<and>
           approx_zc data zc_length resample = Inr a \<and>
           synchronisation_zc zcsequence upsample data zc_root zc_length resample use_abs
               ratio_approx
             = windowed_correlator data (upsample (zcsequence zc_root zc_length) resample 0)
                 a use_abs \<and>
           \<bar>real_of_int a\<bar> \<le> \<bar>real k - real_of_int (uniform_filter_length zc_length resample) / 2\<bar> \<and>
           \<bar>real k - real_of_int (uniform_filter_length zc_length resample) / 2 - real_of_int a\<bar> < 1 \<and>
           a = (if even (uniform_filter_length zc_length resample)
                     \<or> 2 * int k \<le> uniform_filter_length zc_length resample
                then int k - uniform_filter_length zc_length resample div 2
                else int k - uniform_filter_length zc_length resample div 2 - 1)"
proof -
  let ?w = "uniform_filter_length zc_length resample"
  from approx_zc_returns [OF assms] obtain a where a: "approx_zc data zc_length resample = Inr a" ..
  from approx_zc_Inr [OF a] obtain env k where
    env: "envelope data zc_length resample = Inr env" and len: "length env = length data" and
    k: "np_argmax env = Inr k" and ak: "a = py_int (real k - real_of_int ?w / 2)"
    by blast
  have nth: "\<forall>i<length data.
              env ! i = window_sum (map cmod data) (int i - ?w div 2) (nat ?w) / real_of_int ?w"
    using envelope_nth [OF env] by blast
  note mx = np_argmax_Inr [OF k]
  have tr: "\<bar>real_of_int a\<bar> \<le> \<bar>real k - real_of_int ?w / 2\<bar> \<and>
            \<bar>real k - real_of_int ?w / 2 - real_of_int a\<bar> < 1"
    unfolding ak by (rule py_int_truncates)
  have cf: "a = (if even ?w \<or> 2 * int k \<le> ?w then int k - ?w div 2 else int k - ?w div 2 - 1)"
    unfolding ak by (rule py_int_centre)
  have top: "synchronisation_zc zcsequence upsample data zc_root zc_length resample use_abs
               ratio_approx
             = windowed_correlator data (upsample (zcsequence zc_root zc_length) resample 0)
                 a use_abs"
    by (simp add: synchronisation_zc_def a)
  from env len nth mx a top tr cf show ?thesis by blast
qed

text \<open>
  An instance with an odd window: three samples of magnitude one at offset 3, the
  envelope peaks at 4 and the estimate is \<open>int(4 - 1.5) = 2\<close>.
\<close>

theorem coarse_estimate_truncated_witness:
  "[0, 0, 0, 1, 1, 1, 0, 0] \<noteq> ([]::complex list) \<and> uniform_filter_length 3 1 = 3 \<and>
   envelope [0, 0, 0, 1, 1, 1, 0, 0] 3 1 = Inr [0, 0, 1 / 3, 2 / 3, 1, 2 / 3, 1 / 3, 0] \<and>
   approx_zc [0, 0, 0, 1, 1, 1, 0, 0] 3 1 = Inr 2"
proof -
  have w: "uniform_filter_length 3 1 = 3"
    by (rule uniform_filter_length_3_1)
  have env: "envelope [0, 0, 0, 1, 1, 1, 0, 0] 3 1 = Inr [0, 0, 1 / 3, 2 / 3, 1, 2 / 3, 1 / 3, 0]"
    by (simp add: envelope_def uniform_filter_length_3_1 uniform_filter1d_def
          window_sum_def reflect_index_def Let_def upt_rec numeral_nat)
  have a: "approx_zc [0, 0, 0, 1, 1, 1, 0, 0] 3 1 = Inr 2"
    by (simp add: approx_zc_def env w np_argmax_def py_int_def)
  from coarse_estimate_truncated
         [of "[0, 0, 0, 1, 1, 1, 0, 0]" 3 1 "given_sequence [1, 1, 1]" unit_resampler 1 True 50]
       w env a
  show ?thesis by simp
qed

text \<open>
  Claim C4: on a non-empty capture with a window of at least one sample, the function
  correlates the pilot with the slice of the capture from \<open>start = max(approx_zc - 2n, 0)\<close>
  to \<open>end = min(approx_zc + 2n, N)\<close>, where \<open>n\<close> is the length of the resampled pilot and
  \<open>N\<close> that of the capture, and adds \<open>start\<close> to the lag it selects. The start lies in
  \<open>[0, N)\<close>, the end is at most \<open>N\<close>, and no \<^verbatim>\<open>IndexError\<close> is raised. When the
  averaging window is at most four pilot lengths, the end is not below the start and the
  slice is the run of samples from start to end, each position of which is inside the
  capture.
\<close>

theorem search_window_clipped:
  assumes "data \<noteq> []" and "1 \<le> uniform_filter_length zc_length resample"
    and "p = upsample (zcsequence zc_root zc_length) resample 0"
  shows "\<exists>a s e.
           approx_zc data zc_length resample = Inr a \<and>
           s = max (a - 2 * int (length p)) 0 \<and>
           e = min (a + 2 * int (length p)) (int (length data)) \<and>
           0 \<le> s \<and> s < int (length data) \<and> e \<le> int (length data) \<and>
           synchronisation_zc zcsequence upsample data zc_root zc_length resample use_abs
               ratio_approx
             = (case argmax_xcorr (py_slice data s e) p use_abs of
                  Inl err \<Rightarrow> Inl err
                | Inr k \<Rightarrow>
                    Inr (correlation_lags (length (py_slice data s e)) (length p) ! k + s,
                         int (length p)
                           + (correlation_lags (length (py_slice data s e)) (length p) ! k + s))) \<and>
           synchronisation_zc zcsequence upsample data zc_root zc_length resample use_abs
               ratio_approx \<noteq> Inl IndexError \<and>
           (uniform_filter_length zc_length resample \<le> 4 * int (length p) \<longrightarrow>
              s \<le> e \<and>
              py_slice data s e = map (\<lambda>t. data ! t) [nat s..<nat e] \<and>
              (\<forall>t \<in> set [nat s..<nat e]. t < length data))"
proof -
  from approx_zc_returns [OF assms(1,2)] obtain a where
    a: "approx_zc data zc_length resample = Inr a" ..
  define s where "s = max (a - 2 * int (length p)) 0"
  define e where "e = min (a + 2 * int (length p)) (int (length data))"
  have s': "xcorr_start_point a (length p) = s"
    and e': "xcorr_end_point a (length p) (length data) = e"
    by (simp_all add: s_def e_def xcorr_start_point_def xcorr_end_point_def)
  have dz: "data_zc data a (length p) = py_slice data s e"
    by (simp add: data_zc_def s' e')
  note b = window_bounds [OF a, of "length p", unfolded s' e']
  have top: "synchronisation_zc zcsequence upsample data zc_root zc_length resample use_abs
               ratio_approx = windowed_correlator data p a use_abs"
    by (simp add: synchronisation_zc_def a assms(3))
  have run: "synchronisation_zc zcsequence upsample data zc_root zc_length resample use_abs
               ratio_approx
             = (case argmax_xcorr (py_slice data s e) p use_abs of
                  Inl err \<Rightarrow> Inl err
                | Inr k \<Rightarrow>
                    Inr (correlation_lags (length (py_slice data s e)) (length p) ! k + s,
                         int (length p)
                           + (correlation_lags (length (py_slice data s e)) (length p) ! k + s)))"
    unfolding top windowed_correlator_eq dz s' ..
  have noix: "synchronisation_zc zcsequence upsample data zc_root zc_length resample use_abs
               ratio_approx \<noteq> Inl IndexError"
    unfolding top by (rule windowed_correlator_no_index_error)
  have cond: "s \<le> e \<and> py_slice data s e = map (\<lambda>t. data ! t) [nat s..<nat e] \<and>
              (\<forall>t \<in> set [nat s..<nat e]. t < length data)"
    if w: "uniform_filter_length zc_length resample \<le> 4 * int (length p)"
  proof -
    have le: "s \<le> e"
      using window_ordered [OF a w] unfolding s' e' .
    have sub: "py_slice data s e = map (\<lambda>t. data ! t) [nat s..<nat e]"
      using b(1) le b(3) by (rule py_slice_eq_map_nth)
    have "\<forall>t \<in> set [nat s..<nat e]. t < length data"
      using b(3) by auto
    with le sub show ?thesis by blast
  qed
  from a s_def e_def b run noix cond show ?thesis by blast
qed

text \<open>
  Instances: the pilot \<open>1, -\<i>\<close> at index 0 and at \<open>N - n\<close> of a capture of nine samples. The
  windows are the samples \<open>0..2\<close> and \<open>3..8\<close>.
\<close>

theorem search_window_clipped_witness:
  "[1, - \<i>, 0, 0, 0, 0, 0, 0, 0] \<noteq> ([]::complex list) \<and> uniform_filter_length 2 1 = 2 \<and>
   approx_zc [1, - \<i>, 0, 0, 0, 0, 0, 0, 0] 2 1 = Inr (- 1) \<and>
   py_slice [1, - \<i>, 0, 0, 0, 0, 0, 0, 0] 0 3 = [1, - \<i>, 0] \<and>
   synchronisation_zc (given_sequence [1, - \<i>]) unit_resampler
     [1, - \<i>, 0, 0, 0, 0, 0, 0, 0] 1 2 1 True 50 = Inr (1, 3) \<and>
   approx_zc [0, 0, 0, 0, 0, 0, 0, 1, - \<i>] 2 1 = Inr 7 \<and>
   py_slice [0, 0, 0, 0, 0, 0, 0, 1, - \<i>] 3 9 = [0, 0, 0, 0, 1, - \<i>] \<and>
   synchronisation_zc (given_sequence [1, - \<i>]) unit_resampler
     [0, 0, 0, 0, 0, 0, 0, 1, - \<i>] 1 2 1 True 50 = Inr (7, 9)"
proof -
  have w: "uniform_filter_length 2 1 = 2"
    by (rule uniform_filter_length_2_1)
  have p: "[1, - \<i>] = unit_resampler (given_sequence [1, - \<i>] 1 2) 1 0"
    by (simp add: given_sequence_def unit_resampler_def)
  have a0: "approx_zc [1, - \<i>, 0, 0, 0, 0, 0, 0, 0] 2 1 = Inr (- 1)"
    by (simp add: run_defs ceiling_minus)
  have a7: "approx_zc [0, 0, 0, 0, 0, 0, 0, 1, - \<i>] 2 1 = Inr 7"
    by (simp add: run_defs)
  have d0: "py_slice [1, - \<i>, 0, 0, 0, 0, 0, 0, 0] 0 3 = [1, - \<i>, 0]"
    by (simp add: py_slice_def)
  have d7: "py_slice [0, 0, 0, 0, 0, 0, 0, 1, - \<i>] 3 9 = [0, 0, 0, 0, 1, - \<i>]"
    by (simp add: py_slice_def)
  have k0: "argmax_xcorr [1, - \<i>, 0] [1, - \<i>] True = Inr 1"
    by (simp add: argmax_xcorr_def xcorr_abs_def correlate_same_def np_argmax_def upt_rec
          numeral_nat)
  have k7: "argmax_xcorr [0, 0, 0, 0, 1, - \<i>] [1, - \<i>] True = Inr 5"
    by (simp add: argmax_xcorr_def xcorr_abs_def correlate_same_def np_argmax_def upt_rec
          numeral_nat)
  have l0: "correlation_lags (Suc (Suc (Suc 0))) (Suc (Suc 0)) = [0, 1, 2]"
    by (simp add: correlation_lags_def py_slice_def Let_def upto.simps)
  have l7: "correlation_lags (Suc (Suc (Suc (Suc (Suc (Suc 0)))))) (Suc (Suc 0))
              = [- 1, 0, 1, 2, 3, 4]"
    by (simp add: correlation_lags_def py_slice_def Let_def upto.simps)
  have r0: "synchronisation_zc (given_sequence [1, - \<i>]) unit_resampler
              [1, - \<i>, 0, 0, 0, 0, 0, 0, 0] 1 2 1 True 50 = Inr (1, 3)"
    using search_window_clipped
            [of "[1, - \<i>, 0, 0, 0, 0, 0, 0, 0]" 2 1 "[1, - \<i>]" unit_resampler
               "given_sequence [1, - \<i>]" 1 True 50, OF _ _ p]
    by (simp add: w a0 d0 k0 l0)
  have r7: "synchronisation_zc (given_sequence [1, - \<i>]) unit_resampler
              [0, 0, 0, 0, 0, 0, 0, 1, - \<i>] 1 2 1 True 50 = Inr (7, 9)"
    using search_window_clipped
            [of "[0, 0, 0, 0, 0, 0, 0, 1, - \<i>]" 2 1 "[1, - \<i>]" unit_resampler
               "given_sequence [1, - \<i>]" 1 True 50, OF _ _ p]
    by (simp add: w a7 d7 k7 l7)
  from w a0 a7 d0 d7 r0 r7 show ?thesis by simp
qed

text \<open>
  Claim C5: the returned beginning is the lag at which the same-mode correlation over the
  search window is largest, plus the start of the window. The function does not return
  that on the capture of claim C2: the window is the samples \<open>0..4\<close> and starts at \<open>0\<close>,
  the correlation of magnitudes is \<open>0, 1, 2, 1, 0\<close>, its largest value \<open>2\<close> is the
  correlation at lag \<open>1\<close> (at lag \<open>2\<close> it is \<open>1\<close>), and the returned beginning is \<open>2\<close>: output
  2 carries the label \<open>2\<close> in \<open>correlation_lags(5, 2)\<close>.
\<close>

theorem best_lag_mislabelled:
  "synchronisation_zc (given_sequence [1, - \<i>]) unit_resampler
     [0, 1, - \<i>, 0, 0, 0, 0, 0, 0] 1 2 1 True 50 = Inr (2, 4) \<and>
   approx_zc [0, 1, - \<i>, 0, 0, 0, 0, 0, 0] 2 1 = Inr 1 \<and>
   xcorr_start_point 1 2 = 0 \<and>
   data_zc [0, 1, - \<i>, 0, 0, 0, 0, 0, 0] 1 2 = [0, 1, - \<i>, 0, 0] \<and>
   xcorr_abs [0, 1, - \<i>, 0, 0] [1, - \<i>] = Inr [0, 1, 2, 1, 0] \<and>
   corr_lag (\<lambda>x. x) (map cmod [0, 1, - \<i>, 0, 0]) (map cmod [1, - \<i>]) 1 = 2 \<and>
   corr_lag (\<lambda>x. x) (map cmod [0, 1, - \<i>, 0, 0]) (map cmod [1, - \<i>]) 2 = 1 \<and>
   argmax_xcorr [0, 1, - \<i>, 0, 0] [1, - \<i>] True = Inr 2 \<and>
   correlation_lags 5 2 = [0, 1, 2, 3, 4]"
proof -
  have run: "synchronisation_zc (given_sequence [1, - \<i>]) unit_resampler
     [0, 1, - \<i>, 0, 0, 0, 0, 0, 0] 1 2 1 True 50 = Inr (2, 4)"
    by (simp add: run_defs)
  have a: "approx_zc [0, 1, - \<i>, 0, 0, 0, 0, 0, 0] 2 1 = Inr 1"
    by (simp add: run_defs)
  have d: "data_zc [0, 1, - \<i>, 0, 0, 0, 0, 0, 0] 1 2 = [0, 1, - \<i>, 0, 0]"
    by (simp add: data_zc_def xcorr_start_point_def xcorr_end_point_def py_slice_def)
  have x: "xcorr_abs [0, 1, - \<i>, 0, 0] [1, - \<i>] = Inr [0, 1, 2, 1, 0]"
    by (simp add: xcorr_abs_def correlate_same_def upt_rec numeral_nat)
  have c1: "corr_lag (\<lambda>x. x) (map cmod [0, 1, - \<i>, 0, 0]) (map cmod [1, - \<i>]) 1 = 2"
    by simp
  have c2: "corr_lag (\<lambda>x. x) (map cmod [0, 1, - \<i>, 0, 0]) (map cmod [1, - \<i>]) 2 = 1"
    by simp
  have k: "argmax_xcorr [0, 1, - \<i>, 0, 0] [1, - \<i>] True = Inr 2"
    by (simp add: argmax_xcorr_def x np_argmax_def)
  have l: "correlation_lags 5 2 = [0, 1, 2, 3, 4]"
    by (simp add: correlation_lags_def py_slice_def Let_def upto.simps)
  from run a d x c1 c2 k l show ?thesis
    by (simp add: xcorr_start_point_def)
qed

text \<open>
  Claim C8: when the correlation attains its maximum at several positions, the position
  selected is the first of them, and its lag is the smallest of their lags.
\<close>

theorem first_maximum_wins:
  assumes "synchronisation_zc zcsequence upsample data zc_root zc_length resample use_abs
             ratio_approx = Inr (beginning_zc, end_zc)"
    and "p = upsample (zcsequence zc_root zc_length) resample 0"
  shows "\<exists>a k. approx_zc data zc_length resample = Inr a \<and>
           beginning_zc = correlation_lags (length (data_zc data a (length p))) (length p) ! k
                            + xcorr_start_point a (length p) \<and>
           (use_abs \<longrightarrow>
              (\<exists>xcorr. xcorr_abs (data_zc data a (length p)) p = Inr xcorr \<and>
                 (\<forall>j<length xcorr. xcorr ! j \<le> xcorr ! k) \<and>
                 (\<forall>j<length xcorr. xcorr ! j = xcorr ! k \<longrightarrow>
                    k \<le> j \<and>
                    correlation_lags (length (data_zc data a (length p))) (length p) ! k
                      \<le> correlation_lags (length (data_zc data a (length p))) (length p) ! j))) \<and>
           (\<not> use_abs \<longrightarrow>
              (\<exists>xcorr. xcorr_raw (data_zc data a (length p)) p = Inr xcorr \<and>
                 (\<forall>j<length xcorr. complex_key (xcorr ! j) \<le> complex_key (xcorr ! k)) \<and>
                 (\<forall>j<length xcorr. xcorr ! j = xcorr ! k \<longrightarrow>
                    k \<le> j \<and>
                    correlation_lags (length (data_zc data a (length p))) (length p) ! k
                      \<le> correlation_lags (length (data_zc data a (length p))) (length p) ! j)))"
proof -
  from synchronisation_zc_stages [OF assms(1)] assms(2) obtain a k where
    a: "approx_zc data zc_length resample = Inr a" and
    k: "argmax_xcorr (data_zc data a (length p)) p use_abs = Inr k" and
    b: "beginning_zc = correlation_lags (length (data_zc data a (length p))) (length p) ! k
                         + xcorr_start_point a (length p)"
    by auto
  let ?dzc = "data_zc data a (length p)"
  let ?lags = "correlation_lags (length ?dzc) (length p)"
  from argmax_xcorr_Inr(2) [OF k] have n: "1 \<le> length p" by (cases p) simp_all
  have ab: "\<exists>xcorr. xcorr_abs ?dzc p = Inr xcorr \<and>
              (\<forall>j<length xcorr. xcorr ! j \<le> xcorr ! k) \<and>
              (\<forall>j<length xcorr. xcorr ! j = xcorr ! k \<longrightarrow> k \<le> j \<and> ?lags ! k \<le> ?lags ! j)"
    if use_abs
  proof -
    from k that have "argmax_xcorr ?dzc p True = Inr k" by simp
    from argmax_xcorr_abs [OF this] obtain xcorr where
      x: "xcorr_abs ?dzc p = Inr xcorr" "length xcorr = length ?dzc" "np_argmax xcorr = Inr k"
      by blast
    note mx = np_argmax_Inr [OF x(3)]
    have "k \<le> j \<and> ?lags ! k \<le> ?lags ! j" if j: "j < length xcorr" "xcorr ! j = xcorr ! k" for j
    proof -
      from mx(3) j(2) have kj: "k \<le> j" by (metis not_le_imp_less order_less_irrefl)
      from correlation_lags_increasing [OF n kj] j(1) x(2) kj show ?thesis by simp
    qed
    with mx(2) x(1) show ?thesis by blast
  qed
  have raw: "\<exists>xcorr. xcorr_raw ?dzc p = Inr xcorr \<and>
              (\<forall>j<length xcorr. complex_key (xcorr ! j) \<le> complex_key (xcorr ! k)) \<and>
              (\<forall>j<length xcorr. xcorr ! j = xcorr ! k \<longrightarrow> k \<le> j \<and> ?lags ! k \<le> ?lags ! j)"
    if "\<not> use_abs"
  proof -
    from k that have "argmax_xcorr ?dzc p False = Inr k" by simp
    from argmax_xcorr_raw [OF this] obtain xcorr where
      x: "xcorr_raw ?dzc p = Inr xcorr" "length xcorr = length ?dzc"
         "np_argmax (map complex_key xcorr) = Inr k"
      by blast
    note mx = np_argmax_Inr [OF x(3)]
    have le: "\<forall>j<length xcorr. complex_key (xcorr ! j) \<le> complex_key (xcorr ! k)"
      using mx(1,2) by simp
    have "k \<le> j \<and> ?lags ! k \<le> ?lags ! j" if j: "j < length xcorr" "xcorr ! j = xcorr ! k" for j
    proof -
      have kj: "k \<le> j"
      proof (rule ccontr)
        assume "\<not> k \<le> j"
        then have jk: "j < k" by simp
        with mx(3) have "map complex_key xcorr ! j < map complex_key xcorr ! k" by blast
        with jk mx(1) j(2) show False by simp
      qed
      from correlation_lags_increasing [OF n kj] j(1) x(2) kj show ?thesis by simp
    qed
    with le x(1) show ?thesis by blast
  qed
  from a b ab raw show ?thesis by blast
qed

text \<open>
  An instance with a tie: the capture \<open>1, 0\<close> correlates to \<open>1, 1\<close> at the lags \<open>-1, 0\<close>,
  and the lag \<open>-1\<close> is selected.
\<close>

theorem first_maximum_wins_witness:
  "synchronisation_zc (given_sequence [1, - \<i>]) unit_resampler [1, 0] 1 2 1 True 50
     = Inr (- 1, 1) \<and>
   approx_zc [1, 0] 2 1 = Inr (- 1) \<and> xcorr_start_point (- 1) 2 = 0 \<and>
   data_zc [1, 0] (- 1) 2 = [1, 0] \<and>
   xcorr_abs [1, 0] [1, - \<i>] = Inr [1, 1] \<and>
   argmax_xcorr [1, 0] [1, - \<i>] True = Inr 0 \<and>
   correlation_lags 2 2 = [- 1, 0]"
proof -
  have run: "synchronisation_zc (given_sequence [1, - \<i>]) unit_resampler [1, 0] 1 2 1 True 50
     = Inr (- 1, 1)"
    by (simp add: run_defs ceiling_minus)
  have a: "approx_zc [1, 0] 2 1 = Inr (- 1)"
    by (simp add: run_defs ceiling_minus)
  have d: "data_zc [1, 0] (- 1) 2 = [1, 0]"
    by (simp add: data_zc_def xcorr_start_point_def xcorr_end_point_def py_slice_def)
  have x: "xcorr_abs [1, 0] [1, - \<i>] = Inr [1, 1]"
    by (simp add: xcorr_abs_def correlate_same_def upt_rec numeral_nat)
  have k: "argmax_xcorr [1, 0] [1, - \<i>] True = Inr 0"
    by (simp add: argmax_xcorr_def x np_argmax_def)
  have l: "correlation_lags 2 2 = [- 1, 0]"
    by (simp add: correlation_lags_def py_slice_def Let_def upto.simps)
  from first_maximum_wins [OF run refl] run a d x k l
  show ?thesis by (simp add: xcorr_start_point_def)
qed

end
